theory Spec2Isabelle
  imports Complex_Main "HOL-Library.Sublist"
begin

section \<open>Python floats\<close>

text \<open>
  A Python float is an IEEE 754 double: a finite value (kept as the real number it
  denotes; the sign of a zero is not kept), an infinity or a NaN. \<open>time.time()\<close> gives a
  finite one, so a clock reading is a \<open>real\<close>.
\<close>

datatype pyfloat = Fin real | PInf | NInf | NaN

text \<open>Rounding to the nearest integer, a tie going to the even one.\<close>

definition round_even :: "real \<Rightarrow> int" where
  "round_even q =
     (let f = \<lfloor>q\<rfloor>; d = q - of_int f
      in if d < 1 / 2 then f else if 1 / 2 < d then f + 1 else if even f then f else f + 1)"

text \<open>
  The binary exponent of a double that holds \<open>x\<close>: the largest \<open>e\<close> from -1021 to 1023
  with \<open>2 ^ e \<le> |x|\<close>, and -1022 below that (the subnormal range). \<open>ulp\<close> is the spacing
  of the doubles there, 52 binary places below the exponent.
\<close>

fun binade :: "nat \<Rightarrow> real \<Rightarrow> int" where
  "binade 0 x = - 1022"
| "binade (Suc n) x =
     (if 2 powi (int (Suc n) - 1022) \<le> \<bar>x\<bar> then int (Suc n) - 1022 else binade n x)"

definition exponent :: "real \<Rightarrow> int" where
  "exponent x = binade 2045 x"

definition ulp :: "real \<Rightarrow> real" where
  "ulp x = 2 powi (exponent x - 52)"

text \<open>
  The result of an arithmetic operation whose exact value is \<open>x\<close>: the nearest double,
  ties to even, and an infinity once the rounded value reaches \<open>2 ^ 1024\<close>.
\<close>

definition round_double :: "real \<Rightarrow> real" where
  "round_double x = of_int (round_even (x / ulp x)) * ulp x"

definition to_double :: "real \<Rightarrow> pyfloat" where
  "to_double x =
     (let r = round_double x
      in if 2 powi 1024 \<le> r then PInf else if r \<le> - (2 powi 1024) then NInf else Fin r)"

text \<open>\<open>a + b\<close>, \<open>-a\<close> and \<open>a - b\<close> on floats.\<close>

fun fadd :: "pyfloat \<Rightarrow> pyfloat \<Rightarrow> pyfloat" where
  "fadd (Fin x) (Fin y) = to_double (x + y)"
| "fadd NaN b = NaN"
| "fadd a NaN = NaN"
| "fadd PInf NInf = NaN"
| "fadd NInf PInf = NaN"
| "fadd PInf b = PInf"
| "fadd a PInf = PInf"
| "fadd NInf b = NInf"
| "fadd a NInf = NInf"

fun fneg :: "pyfloat \<Rightarrow> pyfloat" where
  "fneg (Fin x) = Fin (- x)"
| "fneg PInf = NInf"
| "fneg NInf = PInf"
| "fneg NaN = NaN"

definition fsub :: "pyfloat \<Rightarrow> pyfloat \<Rightarrow> pyfloat" where
  "fsub a b = fadd a (fneg b)"

text \<open>\<open>t < f\<close> for a finite \<open>t\<close>: false against a NaN.\<close>

fun float_lt :: "real \<Rightarrow> pyfloat \<Rightarrow> bool" where
  "float_lt t (Fin r) = (t < r)"
| "float_lt t PInf = True"
| "float_lt t NInf = False"
| "float_lt t NaN = False"

section \<open>Python values, exceptions and the HTTP boundary\<close>

text \<open>
  The servers exchange JSON with ServiceTitan. \<open>response.json()\<close> yields a Python
  object; \<open>json\<close> is that object: \<open>None\<close>, a bool, an int, a float, a str, a list or
  a dict (an association list read with \<open>map_of\<close>).
\<close>

datatype json =
    JNull
  | JBool bool
  | JInt int
  | JFloat pyfloat
  | JStr string
  | JArr "json list"
  | JObj "(string \<times> json) list"

text \<open>Python's truth test, as used by \<open>if _access_token and ...\<close>.\<close>

fun truthy :: "json \<Rightarrow> bool" where
  "truthy JNull = False"
| "truthy (JBool b) = b"
| "truthy (JInt i) = (i \<noteq> 0)"
| "truthy (JFloat f) = (f \<noteq> Fin 0)"
| "truthy (JStr s) = (s \<noteq> [])"
| "truthy (JArr xs) = (xs \<noteq> [])"
| "truthy (JObj kvs) = (kvs \<noteq> [])"

text \<open>
  The exceptions that can leave the modelled functions. \<open>PyException\<close> is the plain
  \<open>Exception(msg)\<close> the source raises itself; \<open>HTTPStatusError\<close> is what
  \<open>response.raise_for_status()\<close> raises, \<open>TransportError\<close> what the HTTP client raises
  when no response arrives, \<open>JSONDecodeError\<close> what \<open>response.json()\<close> raises on a
  body that is not JSON.
\<close>

datatype py_error =
    ValueError string
  | PyException string
  | KeyError string
  | TypeError
  | OverflowError
  | JSONDecodeError
  | HTTPStatusError int
  | TransportError string

text \<open>\<open>obj[key]\<close> with a string key: only a dict can be read that way.\<close>

fun subscript :: "json \<Rightarrow> string \<Rightarrow> py_error + json" where
  "subscript (JObj kvs) k = (case map_of kvs k of None \<Rightarrow> Inl (KeyError k) | Some v \<Rightarrow> Inr v)"
| "subscript _ k = Inl TypeError"

text \<open>
  \<open>a + obj\<close> for a float \<open>a\<close>. An int operand is converted to a float first, rounded
  to the nearest double, and the conversion raises \<open>OverflowError\<close> when the int is
  beyond the range of the doubles; a bool is the int 0 or 1; a float is added as it is;
  anything else is a \<open>TypeError\<close>.
\<close>

definition float_add :: "pyfloat \<Rightarrow> json \<Rightarrow> py_error + pyfloat" where
  "float_add a j =
     (case j of
        JInt i \<Rightarrow> (case to_double (of_int i) of
                     Fin r \<Rightarrow> Inr (fadd a (Fin r))
                   | _ \<Rightarrow> Inl OverflowError)
      | JBool b \<Rightarrow> Inr (fadd a (Fin (if b then 1 else 0)))
      | JFloat f \<Rightarrow> Inr (fadd a f)
      | _ \<Rightarrow> Inl TypeError)"

text \<open>\<open>str(n)\<close> for an int, as an f-string formats \<open>response.status_code\<close>.\<close>

definition digit_char :: "nat \<Rightarrow> char" where
  "digit_char d = char_of (48 + d)"

function str_nat :: "nat \<Rightarrow> string" where
  "str_nat n = (if n < 10 then [digit_char n] else str_nat (n div 10) @ [digit_char (n mod 10)])"
  by pat_completeness auto
termination
  by (relation "measure id") auto

definition str_int :: "int \<Rightarrow> string" where
  "str_int i = (if i < 0 then CHR ''-'' # str_nat (nat (- i)) else str_nat (nat i))"

text \<open>\<open>sep.join(xs)\<close>.\<close>

fun join :: "string \<Rightarrow> string list \<Rightarrow> string" where
  "join sep [] = []"
| "join sep [x] = x"
| "join sep (x # y # ys) = x @ sep @ join sep (y # ys)"

text \<open>
  An HTTP response as the code reads it: \<open>status_code\<close>, \<open>text\<close> and the result
  of \<open>json()\<close> (\<open>None\<close> when the body does not parse). A request either gets a response or
  fails in transport.
\<close>

record http_response =
  status_code :: int
  response_text :: string
  response_json :: "json option"

datatype net_reply = NoResponse string | Response http_response

text \<open>
  An outgoing request. A header value is either a literal string or \<open>Bearer\<close> followed by
  the token object (the f-string \<open>f"Bearer {token}"\<close>).
\<close>

datatype header_value = Lit string | Bearer json

record http_request =
  req_method :: string
  req_url :: string
  req_headers :: "(string \<times> header_value) list"
  req_params :: "(string \<times> json) list"
  req_form :: "(string \<times> string) list"
  req_body :: "json option"

text \<open>httpx: \<open>raise_for_status\<close> returns on a 2xx status and raises on every other one.\<close>

definition is_success :: "http_response \<Rightarrow> bool" where
  "is_success r = (200 \<le> status_code r \<and> status_code r \<le> 299)"

definition raise_for_status :: "http_response \<Rightarrow> py_error + unit" where
  "raise_for_status r = (if is_success r then Inr () else Inl (HTTPStatusError (status_code r)))"

section \<open>Configuration\<close>

text \<open>
  The four environment variables read with \<open>os.getenv\<close> at import: \<open>None\<close> when unset.
  \<open>not X\<close> holds for \<open>None\<close> and for the empty string.
\<close>

record config =
  CLIENT_ID :: "string option"
  CLIENT_SECRET :: "string option"
  APP_KEY :: "string option"
  TENANT_ID :: "string option"

fun unset :: "string option \<Rightarrow> bool" where
  "unset None = True"
| "unset (Some s) = (s = [])"

text \<open>An environment value inside an f-string or a form field.\<close>

fun env_str :: "string option \<Rightarrow> string" where
  "env_str None = ''None''"
| "env_str (Some s) = s"

definition all_set :: "config \<Rightarrow> bool" where
  "all_set cfg = (\<not> unset (CLIENT_ID cfg) \<and> \<not> unset (CLIENT_SECRET cfg)
                  \<and> \<not> unset (APP_KEY cfg) \<and> \<not> unset (TENANT_ID cfg))"

section \<open>servicetitan_accounting.py: the cached token\<close>

definition AUTH_BASE_URL :: string where
  "AUTH_BASE_URL = ''https://auth.servicetitan.io''"

definition API_BASE_URL :: string where
  "API_BASE_URL = ''https://api.servicetitan.io/accounting/v2''"

text \<open>
  The module globals \<open>_access_token = None\<close> and \<open>_token_expires_at = 0\<close>. The
  expiry starts as the int 0, which compares with a float as the float 0 does, and is a
  float from the first fetch on.
\<close>

record token_cache =
  access_token :: json
  token_expires_at :: pyfloat

definition initial_cache :: token_cache where
  "initial_cache = \<lparr>access_token = JNull, token_expires_at = Fin 0\<rparr>"

text \<open>
  What the outside world answers during one call: the clock at the validity test
  (line 58), the reply to the POST (line 68) and the clock when the expiry is stored
  (line 74).
\<close>

record world =
  now_check :: real
  auth_reply :: net_reply
  now_store :: real

definition missing_vars :: "config \<Rightarrow> string list" where
  "missing_vars cfg =
     (if unset (CLIENT_ID cfg) then [''SERVICE_TITAN_CLIENT_ID''] else [])
   @ (if unset (CLIENT_SECRET cfg) then [''SERVICE_TITAN_CLIENT_SECRET''] else [])
   @ (if unset (APP_KEY cfg) then [''SERVICE_TITAN_APP_KEY''] else [])
   @ (if unset (TENANT_ID cfg) then [''SERVICE_TITAN_TENANT_ID''] else [])"

definition auth_request :: "config \<Rightarrow> http_request" where
  "auth_request cfg =
     \<lparr>req_method = ''POST'', req_url = AUTH_BASE_URL @ ''/connect/token'',
      req_headers = [], req_params = [],
      req_form = [(''grant_type'', ''client_credentials''),
                  (''client_id'', env_str (CLIENT_ID cfg)),
                  (''client_secret'', env_str (CLIENT_SECRET cfg))],
      req_body = None\<rparr>"

text \<open>
  Lines 72 to 76: read the token and the lifetime from the parsed body and store them.
  The first assignment has happened when the second one raises. The expiry is
  \<open>(time.time() + token_data["expires_in"]) - 60\<close> in float arithmetic, each of the two
  operations rounded; the int 60 converts to a float exactly.
\<close>

definition store_token :: "token_cache \<Rightarrow> real \<Rightarrow> json \<Rightarrow> (py_error + json) \<times> token_cache" where
  "store_token st now token_data =
     (case subscript token_data ''access_token'' of
        Inl e \<Rightarrow> (Inl e, st)
      | Inr tok \<Rightarrow>
          (let st1 = st\<lparr>access_token := tok\<rparr> in
           case subscript token_data ''expires_in'' of
             Inl e \<Rightarrow> (Inl e, st1)
           | Inr ei \<Rightarrow>
               (case float_add (Fin now) ei of
                  Inl e \<Rightarrow> (Inl e, st1)
                | Inr s \<Rightarrow> (Inr tok, st1\<lparr>token_expires_at := fsub s (Fin 60)\<rparr>))))"

text \<open>Lines 69 to 76: what happens once the POST has been answered.\<close>

definition finish_fetch :: "token_cache \<Rightarrow> net_reply \<Rightarrow> real \<Rightarrow> (py_error + json) \<times> token_cache" where
  "finish_fetch st reply now =
     (case reply of
        NoResponse m \<Rightarrow> (Inl (TransportError m), st)
      | Response r \<Rightarrow>
          if status_code r \<noteq> 200
          then (Inl (PyException (''Failed to get access token: '' @ str_int (status_code r))), st)
          else (case response_json r of
                  None \<Rightarrow> (Inl JSONDecodeError, st)
                | Some token_data \<Rightarrow> store_token st now token_data))"

text \<open>
  \<open>get_access_token\<close>: the result or the exception, the globals afterwards, and the
  requests sent, in order.
\<close>

definition get_access_token ::
  "config \<Rightarrow> token_cache \<Rightarrow> world \<Rightarrow> (py_error + json) \<times> token_cache \<times> http_request list" where
  "get_access_token cfg st w =
     (if \<not> all_set cfg
      then (Inl (ValueError (''ERROR_ENV: Missing ServiceTitan environment variables: ''
                              @ join '', '' (missing_vars cfg))), st, [])
      else if truthy (access_token st) \<and> float_lt (now_check w) (token_expires_at st)
      then (Inr (access_token st), st, [])
      else (case finish_fetch st (auth_reply w) (now_store w) of
              (res, st') \<Rightarrow> (res, st', [auth_request cfg])))"

text \<open>
  The module lives as long as the process: the cache after a sequence of calls, starting
  from the globals as the import leaves them. Nothing else in the module assigns them.
\<close>

definition run :: "config \<Rightarrow> world list \<Rightarrow> token_cache" where
  "run cfg ws = foldl (\<lambda>st w. fst (snd (get_access_token cfg st w))) initial_cache ws"

text \<open>
  \<open>make_api_request\<close> (lines 78 to 101), the one caller of \<open>get_access_token\<close> in the
  module; every tool goes through it and none of them catches an exception.
\<close>

definition api_request ::
  "config \<Rightarrow> json \<Rightarrow> string \<Rightarrow> string \<Rightarrow> (string \<times> json) list \<Rightarrow> json option \<Rightarrow> http_request" where
  "api_request cfg token method endpoint params data =
     \<lparr>req_method = method,
      req_url = API_BASE_URL @ ''/tenant/'' @ env_str (TENANT_ID cfg) @ endpoint,
      req_headers = [(''Authorization'', Bearer token),
                     (''ST-App-Key'', Lit (env_str (APP_KEY cfg))),
                     (''Content-Type'', Lit ''application/json'')],
      req_params = params, req_form = [], req_body = data\<rparr>"

definition make_api_request ::
  "config \<Rightarrow> token_cache \<Rightarrow> world \<Rightarrow> net_reply \<Rightarrow> string \<Rightarrow> string \<Rightarrow> (string \<times> json) list
     \<Rightarrow> json option \<Rightarrow> (py_error + json) \<times> token_cache \<times> http_request list" where
  "make_api_request cfg st w api_reply method endpoint params data =
     (case get_access_token cfg st w of
        (Inl e, st', reqs) \<Rightarrow> (Inl e, st', reqs)
      | (Inr token, st', reqs) \<Rightarrow>
          (let req = api_request cfg token method endpoint params data in
           case api_reply of
             NoResponse m \<Rightarrow> (Inl (TransportError m), st', reqs @ [req])
           | Response r \<Rightarrow>
               if status_code r \<ge> 400
               then (Inl (PyException (''API request failed: '' @ str_int (status_code r)
                                        @ '' - '' @ response_text r)), st', reqs @ [req])
               else (case response_json r of
                       None \<Rightarrow> (Inl JSONDecodeError, st', reqs @ [req])
                     | Some j \<Rightarrow> (Inr j, st', reqs @ [req]))))"

section \<open>servicetitan_crm.py: a token per call\<close>

definition TOKEN_URL :: string where
  "TOKEN_URL = ''https://auth.servicetitan.io/connect/token''"

definition CRM_BASE_URL :: string where
  "CRM_BASE_URL = ''https://api.servicetitan.io/crm/v2''"

definition crm_token_request :: "config \<Rightarrow> http_request" where
  "crm_token_request cfg =
     \<lparr>req_method = ''POST'', req_url = TOKEN_URL,
      req_headers = [(''Content-Type'', Lit ''application/x-www-form-urlencoded'')],
      req_params = [],
      req_form = [(''grant_type'', ''client_credentials''),
                  (''client_id'', env_str (CLIENT_ID cfg)),
                  (''client_secret'', env_str (CLIENT_SECRET cfg))],
      req_body = None\<rparr>"

text \<open>
  \<open>get_access_token\<close> of servicetitan_crm.py (lines 23 to 40). The module has no
  globals for a token, so the function has no state to read or to return.
\<close>

definition crm_get_access_token ::
  "config \<Rightarrow> net_reply \<Rightarrow> (py_error + json) \<times> http_request list" where
  "crm_get_access_token cfg reply =
     (if unset (CLIENT_ID cfg) \<or> unset (CLIENT_SECRET cfg) \<or> unset (APP_KEY cfg)
         \<or> unset (TENANT_ID cfg)
      then (Inl (PyException
                  ''ERROR_ENV: One or more ServiceTitan environment variables are not set.''), [])
      else (case reply of
              NoResponse m \<Rightarrow> (Inl (TransportError m), [crm_token_request cfg])
            | Response r \<Rightarrow>
                (case raise_for_status r of
                   Inl e \<Rightarrow> (Inl e, [crm_token_request cfg])
                 | Inr _ \<Rightarrow>
                     (case response_json r of
                        None \<Rightarrow> (Inl JSONDecodeError, [crm_token_request cfg])
                      | Some d \<Rightarrow> (subscript d ''access_token'', [crm_token_request cfg])))))"

text \<open>Calling it once per reply, one call after the other: all the requests sent.\<close>

fun crm_calls :: "config \<Rightarrow> net_reply list \<Rightarrow> http_request list" where
  "crm_calls cfg [] = []"
| "crm_calls cfg (r # rs) = snd (crm_get_access_token cfg r) @ crm_calls cfg rs"

text \<open>\<open>create_booking_provider_tag\<close> (lines 84 to 107).\<close>

definition create_booking_provider_tag ::
  "config \<Rightarrow> net_reply \<Rightarrow> net_reply \<Rightarrow> string \<Rightarrow> string option
     \<Rightarrow> (py_error + json) \<times> http_request list" where
  "create_booking_provider_tag cfg token_reply api_reply tag_name description =
     (case crm_get_access_token cfg token_reply of
        (Inl e, reqs) \<Rightarrow> (Inl e, reqs)
      | (Inr token, reqs) \<Rightarrow>
          (let body = JObj ((''tagName'', JStr tag_name)
                            # (case description of None \<Rightarrow> []
                               | Some d \<Rightarrow> [(''description'', JStr d)]));
               req = \<lparr>req_method = ''POST'',
                      req_url = CRM_BASE_URL @ ''/tenant/'' @ env_str (TENANT_ID cfg)
                                @ ''/booking-provider-tags'',
                      req_headers = [(''Authorization'', Bearer token),
                                     (''ST-App-Key'', Lit (env_str (APP_KEY cfg)))],
                      req_params = [], req_form = [], req_body = Some body\<rparr>
           in case api_reply of
                NoResponse m \<Rightarrow> (Inl (TransportError m), reqs @ [req])
              | Response r \<Rightarrow>
                  if status_code r = 404
                  then (Inr (JObj [(''error'', JStr ''Not found''), (''status_code'', JInt 404)]),
                        reqs @ [req])
                  else (case raise_for_status r of
                          Inl e \<Rightarrow> (Inl e, reqs @ [req])
                        | Inr _ \<Rightarrow>
                            (case response_json r of
                               None \<Rightarrow> (Inl JSONDecodeError, reqs @ [req])
                             | Some j \<Rightarrow> (Inr j, reqs @ [req])))))"

section \<open>servicetitan_service_agreements.py: a static key\<close>

text \<open>
  The module raises at import unless its three variables are set, so its tools run with
  three strings. There is no token request: \<open>HEADERS\<close> carries the configured key.
\<close>

record sa_config =
  SA_API_KEY :: string
  SA_TENANT_ID :: string
  SA_APP_KEY :: string

definition BASE_URL :: string where
  "BASE_URL = ''https://api.servicetitan.io''"

definition HEADERS :: "sa_config \<Rightarrow> (string \<times> header_value) list" where
  "HEADERS c = [(''Authorization'', Bearer (JStr (SA_API_KEY c))),
                (''ST-App-Key'', Lit (SA_APP_KEY c)),
                (''Content-Type'', Lit ''application/json'')]"

text \<open>\<open>export_service_agreements\<close> (lines 29 to 48): the status is never looked at.\<close>

definition export_service_agreements ::
  "sa_config \<Rightarrow> net_reply \<Rightarrow> string option \<Rightarrow> bool option
     \<Rightarrow> (py_error + json) \<times> http_request list" where
  "export_service_agreements c reply from_token include_recent_changes =
     (let req = \<lparr>req_method = ''GET'',
                 req_url = BASE_URL @ ''/service-agreements/v2/tenant/'' @ SA_TENANT_ID c
                           @ ''/export/service-agreements'',
                 req_headers = HEADERS c,
                 req_params = (case from_token of None \<Rightarrow> [] | Some t \<Rightarrow> [(''from'', JStr t)])
                            @ (case include_recent_changes of None \<Rightarrow> []
                               | Some b \<Rightarrow> [(''includeRecentChanges'', JBool b)]),
                 req_form = [], req_body = None\<rparr>
      in case reply of
           NoResponse m \<Rightarrow> (Inl (TransportError m), [req])
         | Response r \<Rightarrow>
             (case response_json r of
                None \<Rightarrow> (Inl JSONDecodeError, [req])
              | Some j \<Rightarrow> (Inr j, [req])))"

section \<open>Two callers on one event loop\<close>

text \<open>
  \<open>get_access_token\<close> is a coroutine. Between two \<open>await\<close>s it runs alone; at
  \<open>await client.post(...)\<close> (line 68) it is suspended until the reply arrives and other
  coroutines run. So the body is two uninterrupted pieces: lines 49 to 68, which end in a
  result or in the POST being sent, and lines 69 to 76, which are \<open>finish_fetch\<close>.
  \<open>check_cache\<close> is the first piece: \<open>Some\<close> result when the call ends there,
  \<open>None\<close> when it goes on to the POST.
\<close>

definition check_cache :: "config \<Rightarrow> token_cache \<Rightarrow> real \<Rightarrow> (py_error + json) option" where
  "check_cache cfg st now =
     (if \<not> all_set cfg
      then Some (Inl (ValueError (''ERROR_ENV: Missing ServiceTitan environment variables: ''
                                   @ join '', '' (missing_vars cfg))))
      else if truthy (access_token st) \<and> float_lt now (token_expires_at st)
      then Some (Inr (access_token st))
      else None)"

text \<open>
  The event loop over the shared globals. A call is not started, suspended at the POST, or
  has returned. \<open>Enter i now\<close> runs the first piece of call \<open>i\<close> with the clock at
  \<open>now\<close>; \<open>Answer i reply now\<close> delivers the reply to call \<open>i\<close> and runs its second
  piece. An event that does not fit the state of its call changes nothing.
\<close>

datatype task = NotStarted | Waiting | Returned "py_error + json"

datatype event = Enter nat real | Answer nat net_reply real

record loop_state =
  cache :: token_cache
  tasks :: "nat \<Rightarrow> task"
  sent :: "(nat \<times> http_request) list"

fun step :: "config \<Rightarrow> loop_state \<Rightarrow> event \<Rightarrow> loop_state" where
  "step cfg s (Enter i now) =
     (if tasks s i \<noteq> NotStarted then s
      else case check_cache cfg (cache s) now of
             Some res \<Rightarrow> s\<lparr>tasks := (tasks s)(i := Returned res)\<rparr>
           | None \<Rightarrow> s\<lparr>tasks := (tasks s)(i := Waiting),
                        sent := sent s @ [(i, auth_request cfg)]\<rparr>)"
| "step cfg s (Answer i reply now) =
     (if tasks s i \<noteq> Waiting then s
      else case finish_fetch (cache s) reply now of
             (res, st') \<Rightarrow> s\<lparr>cache := st', tasks := (tasks s)(i := Returned res)\<rparr>)"

definition start :: "token_cache \<Rightarrow> loop_state" where
  "start st = \<lparr>cache = st, tasks = (\<lambda>_. NotStarted), sent = []\<rparr>"

definition run_events :: "config \<Rightarrow> loop_state \<Rightarrow> event list \<Rightarrow> loop_state" where
  "run_events cfg s evs = foldl (step cfg) s evs"

section \<open>Sample inputs\<close>

definition cfg_full :: config where
  "cfg_full = \<lparr>CLIENT_ID = Some ''cid'', CLIENT_SECRET = Some ''s3cret'',
               APP_KEY = Some ''ak'', TENANT_ID = Some ''42''\<rparr>"

definition cfg_no_id :: config where
  "cfg_no_id = \<lparr>CLIENT_ID = None, CLIENT_SECRET = Some ''s3cret'',
                APP_KEY = Some ''ak'', TENANT_ID = Some ''42''\<rparr>"

definition sa_cfg :: sa_config where
  "sa_cfg = \<lparr>SA_API_KEY = ''k'', SA_TENANT_ID = ''42'', SA_APP_KEY = ''ak''\<rparr>"

text \<open>A well-formed token response: status 200, a token and a lifetime in seconds.\<close>

definition token_reply :: "json \<Rightarrow> json \<Rightarrow> net_reply" where
  "token_reply tok lifetime =
     Response \<lparr>status_code = 200, response_text = [],
               response_json = Some (JObj [(''access_token'', tok), (''expires_in'', lifetime)])\<rparr>"

text \<open>A refused token request: status 401 with a body.\<close>

definition refused_reply :: net_reply where
  "refused_reply =
     Response \<lparr>status_code = 401, response_text = ''invalid_client'',
               response_json = Some (JObj [(''error'', JStr ''invalid_client'')])\<rparr>"

text \<open>A failing resource endpoint: status 500 with a JSON body.\<close>

definition server_error_reply :: net_reply where
  "server_error_reply =
     Response \<lparr>status_code = 500, response_text = [],
               response_json = Some (JObj [(''title'', JStr ''Internal Server Error'')])\<rparr>"

text \<open>
  A first call at time 1000 that fetches the token \<open>abc\<close> with a lifetime of 120 seconds,
  and the cache it leaves behind.
\<close>

definition first_fetch :: world where
  "first_fetch = \<lparr>now_check = 1000, auth_reply = token_reply (JStr ''abc'') (JInt 120),
                  now_store = 1000\<rparr>"

definition at_time :: "real \<Rightarrow> net_reply \<Rightarrow> world" where
  "at_time t reply = \<lparr>now_check = t, auth_reply = reply, now_store = t\<rparr>"


section \<open>Facts about rounding\<close>

lemma binade_eq:
  "- 1021 \<le> k \<Longrightarrow> k \<le> int n - 1022 \<Longrightarrow> 2 powi k \<le> \<bar>x\<bar> \<Longrightarrow> \<bar>x\<bar> < 2 powi (k + 1)
   \<Longrightarrow> binade n x = k"
proof (induction n)
  case 0
  then show ?case by simp
next
  case (Suc n)
  show ?case
  proof (cases "2 powi (int (Suc n) - 1022) \<le> \<bar>x\<bar>")
    case True
    with Suc.prems have "(2::real) powi (int (Suc n) - 1022) < 2 powi (k + 1)" by linarith
    then have "int (Suc n) - 1022 < k + 1"
      using power_int_increasing[of "k + 1" "int (Suc n) - 1022" "2::real"] by force
    with Suc.prems True show ?thesis by simp
  next
    case False
    with Suc.prems have "k \<noteq> int (Suc n) - 1022" by auto
    with Suc.prems have "k \<le> int n - 1022" by simp
    with Suc False show ?thesis by simp
  qed
qed

lemma exponent_eq:
  "- 1021 \<le> k \<Longrightarrow> k \<le> 1023 \<Longrightarrow> 2 powi k \<le> \<bar>x\<bar> \<Longrightarrow> \<bar>x\<bar> < 2 powi (k + 1)
   \<Longrightarrow> exponent x = k"
  unfolding exponent_def by (rule binade_eq) auto

lemma round_even_of_int: "round_even (of_int m) = m"
  by (simp add: round_even_def)

lemma ulp_pos: "0 < ulp x"
  by (simp add: ulp_def)

text \<open>A value that is a whole number of ulps is a double: rounding leaves it alone.\<close>

lemma round_double_exact:
  assumes "x / ulp x = of_int m"
  shows "round_double x = x"
proof -
  have "round_double x = of_int m * ulp x"
    by (simp add: round_double_def assms round_even_of_int)
  also have "\<dots> = x" using assms ulp_pos[of x] by (simp add: field_simps)
  finally show ?thesis .
qed

lemma to_double_exact:
  assumes "x / ulp x = of_int m" and "\<bar>x\<bar> < 2 powi 1024"
  shows "to_double x = Fin x"
proof -
  from assms(2) have "x < 2 powi 1024" and "- (2 powi 1024) < x"
    by (auto simp only: abs_less_iff)
  then show ?thesis
    unfolding to_double_def Let_def round_double_exact[OF assms(1)]
    by (simp only: not_le[symmetric] if_False)
qed

lemma to_double_zero: "to_double 0 = Fin 0"
  by (rule to_double_exact[of _ 0]) simp_all

text \<open>Every int up to \<open>2 ^ 53\<close> in size is a double.\<close>

lemma to_double_of_int:
  assumes "\<bar>n\<bar> \<le> 2 ^ 53"
  shows "to_double (of_int n) = Fin (of_int n)"
proof (cases "n = 0")
  case True
  then show ?thesis by (simp add: to_double_zero)
next
  case False
  then have "1 \<le> nat \<bar>n\<bar>" by simp
  from ex_power_ivl1[OF _ this, of 2] obtain k where
    k: "2 ^ k \<le> nat \<bar>n\<bar>" "nat \<bar>n\<bar> < 2 ^ (k + 1)" by auto
  from k have lo: "(2::int) ^ k \<le> \<bar>n\<bar>" and hi: "\<bar>n\<bar> < (2::int) ^ (k + 1)"
    by (simp_all add: le_nat_iff nat_less_iff)
  from lo assms have p: "(2::int) ^ k \<le> 2 ^ 53" by linarith
  have k53: "k \<le> 53" by (rule power_le_imp_le_exp[of "2::int"]) (simp, fact p)
  have rlo: "(2::real) powi int k \<le> \<bar>of_int n\<bar>"
    using lo by (metis of_int_abs of_int_le_iff of_int_numeral of_int_power power_int_of_nat)
  have rhi: "\<bar>of_int n :: real\<bar> < 2 powi (int k + 1)"
  proof -
    from hi have "\<bar>of_int n :: real\<bar> < of_int (2 ^ (k + 1))"
      by (metis of_int_abs of_int_less_iff)
    also have "(of_int (2 ^ (k + 1)) :: real) = 2 powi (int k + 1)"
      by (simp add: power_int_add)
    finally show ?thesis .
  qed
  have ex: "exponent (of_int n) = int k"
    using k53 by (intro exponent_eq[OF _ _ rlo rhi]) auto
  have "\<exists>m. (of_int n :: real) / ulp (of_int n) = of_int m"
  proof (cases "k \<le> 52")
    case True
    have "ulp (of_int n) = 2 powi (int k - 52)" by (simp add: ulp_def ex)
    also have "\<dots> = 1 / 2 ^ (52 - k)"
      using True by (simp add: power_int_def nat_diff_distrib' field_simps)
    finally have "(of_int n :: real) / ulp (of_int n) = of_int (n * 2 ^ (52 - k))" by simp
    then show ?thesis by blast
  next
    case False
    with k53 have k: "k = 53" by simp
    with lo assms have "\<bar>n\<bar> = 2 ^ 53" by simp
    then have n: "n = 2 ^ 53 \<or> n = - (2 ^ 53)" by linarith
    have "ulp (of_int n) = 2" by (simp add: ulp_def ex k)
    with n have "(of_int n :: real) / ulp (of_int n) = of_int (2 ^ 52)
               \<or> (of_int n :: real) / ulp (of_int n) = of_int (- (2 ^ 52))" by auto
    then show ?thesis by blast
  qed
  then obtain m where m: "(of_int n :: real) / ulp (of_int n) = of_int m" ..
  have "\<bar>of_int n :: real\<bar> \<le> 2 ^ 53" using assms
    by (metis of_int_abs of_int_le_iff of_int_numeral of_int_power)
  also have "\<dots> < (2::real) powi 1024" by simp
  finally show ?thesis by (rule to_double_exact[OF m])
qed

lemma fadd_of_int:
  "\<bar>n + m\<bar> \<le> 2 ^ 53 \<Longrightarrow> fadd (Fin (of_int n)) (Fin (of_int m)) = Fin (of_int (n + m))"
  using to_double_of_int[of "n + m"] by simp

lemma fsub_of_int:
  "\<bar>n - m\<bar> \<le> 2 ^ 53 \<Longrightarrow> fsub (Fin (of_int n)) (Fin (of_int m)) = Fin (of_int (n - m))"
  using to_double_of_int[of "n - m"] by (simp add: fsub_def)

lemma float_add_int:
  "\<bar>e\<bar> \<le> 2 ^ 53 \<Longrightarrow> \<bar>n + e\<bar> \<le> 2 ^ 53 \<Longrightarrow>
   float_add (Fin (of_int n)) (JInt e) = Inr (Fin (of_int (n + e)))"
  by (simp add: float_add_def to_double_of_int fadd_of_int del: fadd.simps)





section \<open>Facts about the pieces of \<open>get_access_token\<close>\<close>

lemma get_access_token_miss:
  "all_set cfg \<Longrightarrow>
   \<not> (truthy (access_token st) \<and> float_lt (now_check w) (token_expires_at st)) \<Longrightarrow>
   get_access_token cfg st w =
     (fst (finish_fetch st (auth_reply w) (now_store w)),
      snd (finish_fetch st (auth_reply w) (now_store w)), [auth_request cfg])"
  by (simp add: get_access_token_def split: prod.splits)


lemma get_access_token_phases:
  "get_access_token cfg st w =
     (case check_cache cfg st (now_check w) of
        Some res \<Rightarrow> (res, st, [])
      | None \<Rightarrow> (fst (finish_fetch st (auth_reply w) (now_store w)),
                 snd (finish_fetch st (auth_reply w) (now_store w)), [auth_request cfg]))"
  by (simp add: get_access_token_def check_cache_def split: prod.splits)

lemma store_token_ok:
  "subscript d ''access_token'' = Inr tok \<Longrightarrow> subscript d ''expires_in'' = Inr ei \<Longrightarrow>
   float_add (Fin now) ei = Inr s \<Longrightarrow>
   store_token st now d = (Inr tok, \<lparr>access_token = tok, token_expires_at = fsub s (Fin 60)\<rparr>)"
  by (simp add: store_token_def)

lemma store_token_Inr:
  assumes "store_token st now d = (Inr tok, st')"
  shows "\<exists>ei s. subscript d ''access_token'' = Inr tok \<and> subscript d ''expires_in'' = Inr ei
           \<and> float_add (Fin now) ei = Inr s
           \<and> st' = \<lparr>access_token = tok, token_expires_at = fsub s (Fin 60)\<rparr>"
  using assms
  by (auto simp: store_token_def Let_def split: sum.splits)

lemma finish_fetch_Inr:
  assumes "finish_fetch st reply now = (Inr tok, st')"
  shows "\<exists>r d. reply = Response r \<and> status_code r = 200 \<and> response_json r = Some d
           \<and> store_token st now d = (Inr tok, st')"
  using assms
  by (auto simp: finish_fetch_def split: net_reply.splits if_splits option.splits)

text \<open>A successful fetch replaces both globals, whatever they held.\<close>

lemma finish_fetch_overwrites:
  assumes "finish_fetch st reply now = (Inr tok, c)"
  shows "finish_fetch st' reply now = (Inr tok, c)"
proof -
  from finish_fetch_Inr[OF assms] obtain r d where
    r: "reply = Response r" "status_code r = 200" "response_json r = Some d"
       "store_token st now d = (Inr tok, c)" by blast
  from store_token_Inr[OF r(4)] obtain ei s where
    e: "subscript d ''access_token'' = Inr tok" "subscript d ''expires_in'' = Inr ei"
       "float_add (Fin now) ei = Inr s"
       "c = \<lparr>access_token = tok, token_expires_at = fsub s (Fin 60)\<rparr>"
    by blast
  show ?thesis using r(1-3) e by (simp add: finish_fetch_def store_token_ok)
qed

text \<open>
  The sample reply, evaluated: with a whole-second clock and a whole lifetime, all up to
  \<open>2 ^ 53\<close> in size, no operation rounds.
\<close>

lemma finish_fetch_token_reply:
  assumes "\<bar>e\<bar> \<le> 2 ^ 53" and "\<bar>n + e\<bar> \<le> 2 ^ 53" and "\<bar>n + e - 60\<bar> \<le> 2 ^ 53"
  shows "finish_fetch st (token_reply tok (JInt e)) (of_int n)
           = (Inr tok, \<lparr>access_token = tok, token_expires_at = Fin (of_int (n + e - 60))\<rparr>)"
proof -
  have "fsub (Fin (of_int (n + e))) (Fin 60) = Fin (of_int (n + e - 60))"
    using fsub_of_int[of "n + e" 60] assms(3) by simp
  then show ?thesis
    by (simp add: finish_fetch_def token_reply_def
          store_token_ok[OF _ _ float_add_int[OF assms(1,2)]])
qed

lemma finish_fetch_120_at_1000:
  "finish_fetch st (token_reply tok (JInt 120)) 1000
     = (Inr tok, \<lparr>access_token = tok, token_expires_at = Fin 1060\<rparr>)"
  using finish_fetch_token_reply[of 120 1000 st tok] by simp

lemma finish_fetch_3600_at_1000:
  "finish_fetch st (token_reply tok (JInt 3600)) 1000
     = (Inr tok, \<lparr>access_token = tok, token_expires_at = Fin 4540\<rparr>)"
  using finish_fetch_token_reply[of 3600 1000 st tok] by simp

lemma finish_fetch_3600_at_1002:
  "finish_fetch st (token_reply tok (JInt 3600)) 1002
     = (Inr tok, \<lparr>access_token = tok, token_expires_at = Fin 4542\<rparr>)"
  using finish_fetch_token_reply[of 3600 1002 st tok] by simp

lemma finish_fetch_3600_at_1003:
  "finish_fetch st (token_reply tok (JInt 3600)) 1003
     = (Inr tok, \<lparr>access_token = tok, token_expires_at = Fin 4543\<rparr>)"
  using finish_fetch_token_reply[of 3600 1003 st tok] by simp


lemma all_set_cfg_full: "all_set cfg_full"
  by (simp add: all_set_def cfg_full_def)

lemma not_all_set_cfg_no_id: "\<not> all_set cfg_no_id"
  by (simp add: all_set_def cfg_no_id_def)

lemma str_int_401: "str_int 401 = ''401''"
  by code_simp

subsection \<open>The cache over the life of the process\<close>





lemma run_first_fetch:
  "run cfg_full [first_fetch] = \<lparr>access_token = JStr ''abc'', token_expires_at = Fin 1060\<rparr>"
  by (simp add: run_def get_access_token_miss all_set_cfg_full initial_cache_def
        first_fetch_def finish_fetch_120_at_1000)

subsection \<open>servicetitan_crm.py\<close>

lemma crm_requests:
  "all_set cfg \<Longrightarrow> snd (crm_get_access_token cfg r) = [crm_token_request cfg]"
  by (auto simp: crm_get_access_token_def all_set_def
           split: net_reply.splits sum.splits option.splits)

lemma crm_success_configured:
  "fst (crm_get_access_token cfg r) = Inr tok \<Longrightarrow> all_set cfg"
  by (auto simp: crm_get_access_token_def all_set_def split: if_splits)

lemma crm_calls_replicate:
  "all_set cfg \<Longrightarrow> crm_calls cfg rs = replicate (length rs) (crm_token_request cfg)"
  by (induction rs) (simp_all add: crm_requests)

lemma crm_returns_response_token:
  "fst (crm_get_access_token cfg reply) = Inr tok \<Longrightarrow>
   \<exists>r d. reply = Response r \<and> is_success r \<and> response_json r = Some d
         \<and> subscript d ''access_token'' = Inr tok"
  by (auto simp: crm_get_access_token_def raise_for_status_def
           split: if_splits net_reply.splits sum.splits option.splits)

lemma crm_token_reply:
  "all_set cfg \<Longrightarrow>
   crm_get_access_token cfg (token_reply tok lifetime) = (Inr tok, [crm_token_request cfg])"
  by (simp add: crm_get_access_token_def all_set_def token_reply_def raise_for_status_def
        is_success_def)

lemma crm_refused_reply:
  "all_set cfg \<Longrightarrow>
   crm_get_access_token cfg refused_reply = (Inl (HTTPStatusError 401), [crm_token_request cfg])"
  by (simp add: crm_get_access_token_def all_set_def refused_reply_def raise_for_status_def
        is_success_def)

subsection \<open>The callers\<close>

lemma make_api_request_propagates:
  "fst (get_access_token cfg st w) = Inl err \<Longrightarrow>
   make_api_request cfg st w api_reply method endpoint params data =
     (Inl err, snd (get_access_token cfg st w))"
  by (cases "get_access_token cfg st w") (simp add: make_api_request_def)

lemma create_booking_provider_tag_propagates:
  "fst (crm_get_access_token cfg reply) = Inl err \<Longrightarrow>
   create_booking_provider_tag cfg reply api_reply tag_name description =
     (Inl err, snd (crm_get_access_token cfg reply))"
  by (cases "crm_get_access_token cfg reply") (simp add: create_booking_provider_tag_def)

lemma cold_start_returns_response_token:
  assumes "all_set cfg" and "\<not> truthy (access_token st)"
    and "fst (get_access_token cfg st w) = Inr tok"
  shows "\<exists>r d. auth_reply w = Response r \<and> status_code r = 200 \<and> response_json r = Some d
           \<and> subscript d ''access_token'' = Inr tok"
proof -
  from assms have "fst (finish_fetch st (auth_reply w) (now_store w)) = Inr tok"
    by (simp add: get_access_token_miss)
  then have "finish_fetch st (auth_reply w) (now_store w)
             = (Inr tok, snd (finish_fetch st (auth_reply w) (now_store w)))"
    by (metis prod.collapse)
  from finish_fetch_Inr[OF this] obtain r d where
    r: "auth_reply w = Response r" "status_code r = 200" "response_json r = Some d"
       "store_token st (now_store w) d
          = (Inr tok, snd (finish_fetch st (auth_reply w) (now_store w)))"
    by blast
  from store_token_Inr[OF r(4)] r(1-3) show ?thesis by blast
qed

text \<open>
  One call alone on the event loop is the sequential \<open>get_access_token\<close>: same result,
  same globals, same request.
\<close>

lemma single_call_on_loop:
  "cache (run_events cfg (start st) [Enter i (now_check w), Answer i (auth_reply w) (now_store w)])
     = fst (snd (get_access_token cfg st w))
   \<and> tasks (run_events cfg (start st)
              [Enter i (now_check w), Answer i (auth_reply w) (now_store w)]) i
     = Returned (fst (get_access_token cfg st w))
   \<and> map snd (sent (run_events cfg (start st)
                    [Enter i (now_check w), Answer i (auth_reply w) (now_store w)]))
     = snd (snd (get_access_token cfg st w))"
  by (simp add: run_events_def start_def get_access_token_phases
           split: option.splits prod.splits)

section \<open>The claims\<close>

subsection \<open>C1: cache hit before the stored expiry, refetch at the expiry\<close>



subsection \<open>C2: the stored expiry\<close>




subsection \<open>C3: the authentication endpoint refuses\<close>

text \<open>
  C3 as stated fails: the exception raised on a status other than 200 is
  \<open>Exception(f"Failed to get access token: {response.status_code}")\<close>. It holds the
  status code and nothing of the response body. A 401 whose body reads
  \<open>invalid_client\<close> gives the message below, in which the body does not occur.
\<close>

theorem auth_error_omits_response_body:
  "get_access_token cfg_full initial_cache (at_time 1000 refused_reply)
     = (Inl (PyException ''Failed to get access token: 401''), initial_cache,
        [auth_request cfg_full])
   \<and> \<not> sublist ''invalid_client'' ''Failed to get access token: 401''"
proof -
  have "get_access_token cfg_full initial_cache (at_time 1000 refused_reply)
     = (Inl (PyException ''Failed to get access token: 401''), initial_cache,
        [auth_request cfg_full])"
    by (simp add: get_access_token_miss all_set_cfg_full initial_cache_def at_time_def
          refused_reply_def finish_fetch_def str_int_401)
  moreover have "\<not> sublist ''invalid_client'' ''Failed to get access token: 401''"
    by code_simp
  ultimately show ?thesis by simp
qed

text \<open>
  C3, amended. When the authentication endpoint answers a fetch with a status other than
  200, \<open>get_access_token\<close> raises an exception whose message is the fixed text followed by
  the status code in decimal (the response body is not part of it), after exactly one
  request, and both globals are as they were before the call.
\<close>

theorem auth_failure_reports_status_and_keeps_cache:
  assumes "all_set cfg"
    and "\<not> (truthy (access_token st) \<and> float_lt (now_check w) (token_expires_at st))"
    and "auth_reply w = Response r" and "status_code r \<noteq> 200"
  shows "get_access_token cfg st w =
           (Inl (PyException (''Failed to get access token: '' @ str_int (status_code r))),
            st, [auth_request cfg])"
  using assms by (simp add: get_access_token_miss finish_fetch_def)

theorem auth_failure_reports_status_and_keeps_cache_witness:
  "get_access_token cfg_full \<lparr>access_token = JStr ''old'', token_expires_at = Fin 900\<rparr>
       (at_time 1000 refused_reply)
     = (Inl (PyException ''Failed to get access token: 401''),
        \<lparr>access_token = JStr ''old'', token_expires_at = Fin 900\<rparr>, [auth_request cfg_full])"
proof -
  have m: "\<not> (truthy (access_token \<lparr>access_token = JStr ''old'', token_expires_at = Fin 900\<rparr>)
             \<and> float_lt (now_check (at_time 1000 refused_reply))
                 (token_expires_at \<lparr>access_token = JStr ''old'', token_expires_at = Fin 900\<rparr>))"
    by (simp add: at_time_def)
  have a: "auth_reply (at_time 1000 refused_reply)
             = Response \<lparr>status_code = 401, response_text = ''invalid_client'',
                         response_json = Some (JObj [(''error'', JStr ''invalid_client'')])\<rparr>"
    by (simp add: at_time_def refused_reply_def)
  have s: "status_code \<lparr>status_code = 401, response_text = ''invalid_client'',
                         response_json = Some (JObj [(''error'', JStr ''invalid_client'')])\<rparr>
             \<noteq> 200"
    by simp
  from auth_failure_reports_status_and_keeps_cache[OF all_set_cfg_full m a s]
  show ?thesis by (simp add: str_int_401)
qed

subsection \<open>C4: missing configuration\<close>

text \<open>
  C4 as stated fails for servicetitan_crm.py: its message is one fixed sentence. With only
  \<open>SERVICE_TITAN_CLIENT_ID\<close> unset, the name of that variable does not occur in it.
\<close>

theorem crm_config_error_names_no_variable:
  "crm_get_access_token cfg_no_id (token_reply (JStr ''abc'') (JInt 120))
     = (Inl (PyException
          ''ERROR_ENV: One or more ServiceTitan environment variables are not set.''), [])
   \<and> missing_vars cfg_no_id = [''SERVICE_TITAN_CLIENT_ID'']
   \<and> \<not> sublist ''SERVICE_TITAN_CLIENT_ID''
         ''ERROR_ENV: One or more ServiceTitan environment variables are not set.''"
proof -
  have "\<not> sublist ''SERVICE_TITAN_CLIENT_ID''
         ''ERROR_ENV: One or more ServiceTitan environment variables are not set.''"
    by code_simp
  then show ?thesis
    by (simp add: crm_get_access_token_def cfg_no_id_def missing_vars_def)
qed

text \<open>
  C4, amended. With any of the four values unset or empty, both versions fail before any
  request is sent. In servicetitan_accounting.py the error is a \<open>ValueError\<close> whose
  message ends with the names of exactly the unset variables, in the order client id,
  client secret, app key, tenant id, joined by a comma and a space (there is at least
  one), and the globals are untouched. In servicetitan_crm.py the error is an
  \<open>Exception\<close> with a fixed message that names no variable.
\<close>

theorem missing_configuration_fails_before_any_request:
  assumes "\<not> all_set cfg"
  shows "get_access_token cfg st w =
           (Inl (ValueError (''ERROR_ENV: Missing ServiceTitan environment variables: ''
                             @ join '', '' (missing_vars cfg))), st, [])
       \<and> missing_vars cfg = map fst (filter (\<lambda>(n, v). unset v)
            [(''SERVICE_TITAN_CLIENT_ID'', CLIENT_ID cfg),
             (''SERVICE_TITAN_CLIENT_SECRET'', CLIENT_SECRET cfg),
             (''SERVICE_TITAN_APP_KEY'', APP_KEY cfg),
             (''SERVICE_TITAN_TENANT_ID'', TENANT_ID cfg)])
       \<and> missing_vars cfg \<noteq> []
       \<and> crm_get_access_token cfg reply =
           (Inl (PyException
              ''ERROR_ENV: One or more ServiceTitan environment variables are not set.''), [])"
  using assms
  by (auto simp: get_access_token_def crm_get_access_token_def all_set_def missing_vars_def)

theorem missing_configuration_fails_before_any_request_witness:
  "get_access_token cfg_no_id initial_cache first_fetch =
     (Inl (ValueError
        ''ERROR_ENV: Missing ServiceTitan environment variables: SERVICE_TITAN_CLIENT_ID''),
      initial_cache, [])
   \<and> missing_vars cfg_no_id = [''SERVICE_TITAN_CLIENT_ID'']
   \<and> crm_get_access_token cfg_no_id (auth_reply first_fetch) =
       (Inl (PyException
          ''ERROR_ENV: One or more ServiceTitan environment variables are not set.''), [])"
proof -
  have m: "missing_vars cfg_no_id = [''SERVICE_TITAN_CLIENT_ID'']"
    by (simp add: missing_vars_def cfg_no_id_def)
  from missing_configuration_fails_before_any_request[OF not_all_set_cfg_no_id,
         of initial_cache first_fetch "auth_reply first_fetch"]
  show ?thesis by (simp add: m)
qed

subsection \<open>C5: the token payload\<close>

text \<open>
  C5. The claim asks for a failure when \<open>access_token\<close> is absent or not a string, and
  \<open>get_access_token\<close> is annotated \<open>-> str\<close>. Nine modules of the repository do that
  check (servicetitan_core.py, lines 41 to 45: \<open>isinstance(access_token, str)\<close>, else a
  \<open>TypeError\<close>). servicetitan_accounting.py does not: line 73 assigns
  \<open>token_data["access_token"]\<close> as it comes. Evaluated on a response with
  \<open>"access_token": 123\<close> and \<open>"expires_in": 3600\<close> at time 1000, the call raises
  nothing: the integer 123 is stored in the cache, with expiry 4540, and returned.
\<close>

theorem non_string_token_is_stored_and_returned:
  "get_access_token cfg_full initial_cache (at_time 1000 (token_reply (JInt 123) (JInt 3600)))
     = (Inr (JInt 123), \<lparr>access_token = JInt 123, token_expires_at = Fin 4540\<rparr>,
        [auth_request cfg_full])"
  by (simp add: get_access_token_miss all_set_cfg_full initial_cache_def at_time_def
        finish_fetch_3600_at_1000)

subsection \<open>C6: how long a cached token is reused\<close>

text \<open>
  C6 as stated fails: the test at line 58 compares the clock with the stored
  \<open>_token_expires_at\<close> itself; the 60 seconds were subtracted once, when it was stored.
  After a fetch at time 1000 with a lifetime of 120 the stored expiry is 1060; a call at
  time 1030 is inside the last 60 seconds before the stored expiry and still gets the
  cached token without a request.
\<close>

theorem token_reused_within_60_seconds_of_stored_expiry:
  "get_access_token cfg_full (run cfg_full [first_fetch]) (at_time 1030 refused_reply)
     = (Inr (JStr ''abc''), run cfg_full [first_fetch], [])
   \<and> \<not> float_lt (now_check (at_time 1030 refused_reply))
          (fsub (token_expires_at (run cfg_full [first_fetch])) (Fin 60))"
  using fsub_of_int[of 1060 60]
  by (simp add: run_first_fetch get_access_token_def all_set_cfg_full at_time_def)

text \<open>
  C6, amended. In every state, a call that returns a token without sending a request
  returns the cached token, leaves the globals unchanged, and the clock read strictly less
  than the stored \<open>_token_expires_at\<close>: the reuse window ends at the stored expiry (which
  already has the 60-second margin taken off), not 60 seconds before it.
\<close>

theorem token_reused_only_before_stored_expiry:
  assumes "get_access_token cfg st w = (Inr tok, st', [])"
  shows "tok = access_token st \<and> st' = st \<and> truthy (access_token st)
         \<and> float_lt (now_check w) (token_expires_at st)"
  using assms by (auto simp: get_access_token_def split: if_splits prod.splits)

theorem token_reused_only_before_stored_expiry_witness:
  "get_access_token cfg_full (run cfg_full [first_fetch]) (at_time 1059 refused_reply)
     = (Inr (JStr ''abc''), run cfg_full [first_fetch], [])
   \<and> float_lt (now_check (at_time 1059 refused_reply))
         (token_expires_at (run cfg_full [first_fetch]))"
proof -
  have g: "get_access_token cfg_full (run cfg_full [first_fetch]) (at_time 1059 refused_reply)
             = (Inr (JStr ''abc''), run cfg_full [first_fetch], [])"
    by (simp add: run_first_fetch get_access_token_def all_set_cfg_full at_time_def)
  from token_reused_only_before_stored_expiry[OF g] g show ?thesis by simp
qed

subsection \<open>C7: a cold start\<close>

text \<open>
  C7 as stated fails when the configuration is incomplete: the check of lines 49 to 56
  comes first, so a call that starts with no cached token sends no request at all and
  fails with the configuration error, in servicetitan_accounting.py and in
  servicetitan_crm.py alike.
\<close>

theorem cold_start_without_configuration_sends_nothing:
  "\<not> truthy (access_token initial_cache)
   \<and> get_access_token cfg_no_id initial_cache first_fetch
     = (Inl (ValueError
          ''ERROR_ENV: Missing ServiceTitan environment variables: SERVICE_TITAN_CLIENT_ID''),
        initial_cache, [])
   \<and> crm_get_access_token cfg_no_id (auth_reply first_fetch)
     = (Inl (PyException
          ''ERROR_ENV: One or more ServiceTitan environment variables are not set.''), [])"
proof -
  have m: "missing_vars cfg_no_id = [''SERVICE_TITAN_CLIENT_ID'']"
    by (simp add: missing_vars_def cfg_no_id_def)
  have a: "get_access_token cfg_no_id initial_cache first_fetch
     = (Inl (ValueError
          ''ERROR_ENV: Missing ServiceTitan environment variables: SERVICE_TITAN_CLIENT_ID''),
        initial_cache, [])"
    by (simp add: get_access_token_def not_all_set_cfg_no_id m)
  have c: "crm_get_access_token cfg_no_id (auth_reply first_fetch)
     = (Inl (PyException
          ''ERROR_ENV: One or more ServiceTitan environment variables are not set.''), [])"
    by (simp add: crm_get_access_token_def cfg_no_id_def)
  from a c show ?thesis by (simp add: initial_cache_def)
qed

text \<open>
  C7, amended. Under a complete configuration, a call of \<open>get_access_token\<close> that starts
  with no cached token sends exactly one request, a POST to the authentication endpoint.
  A well-formed response (status 200, an \<open>access_token\<close> and an \<open>expires_in\<close> that
  Python can add to a float: a number within the range of the doubles) makes the call
  return that \<open>access_token\<close>, and a token the call returns is always the
  \<open>access_token\<close> of the response to that request. If the call fails, still exactly one
  request was sent, and the caller \<open>make_api_request\<close> ends with the same exception and no
  further request. The same holds in servicetitan_crm.py for \<open>get_access_token\<close> (a
  well-formed response there: a 2xx status and an \<open>access_token\<close>) and its caller
  \<open>create_booking_provider_tag\<close>.
\<close>

theorem cold_start_sends_one_post_and_errors_propagate:
  assumes "all_set cfg" and "\<not> truthy (access_token st)"
  shows "snd (snd (get_access_token cfg st w)) = [auth_request cfg]
       \<and> req_method (auth_request cfg) = ''POST''
       \<and> req_url (auth_request cfg) = ''https://auth.servicetitan.io/connect/token''
       \<and> (\<forall>tok. fst (get_access_token cfg st w) = Inr tok \<longrightarrow>
             (\<exists>r d. auth_reply w = Response r \<and> status_code r = 200 \<and> response_json r = Some d
                    \<and> subscript d ''access_token'' = Inr tok))
       \<and> (\<forall>r d tok ei s. auth_reply w = Response r \<and> status_code r = 200
                \<and> response_json r = Some d \<and> subscript d ''access_token'' = Inr tok
                \<and> subscript d ''expires_in'' = Inr ei
                \<and> float_add (Fin (now_store w)) ei = Inr s \<longrightarrow>
             fst (get_access_token cfg st w) = Inr tok)
       \<and> (\<forall>err. fst (get_access_token cfg st w') = Inl err \<longrightarrow>
             snd (snd (get_access_token cfg st w')) = [auth_request cfg]
             \<and> make_api_request cfg st w' api_reply method endpoint params data
                 = (Inl err, fst (snd (get_access_token cfg st w')), [auth_request cfg]))
       \<and> snd (crm_get_access_token cfg reply) = [crm_token_request cfg]
       \<and> req_method (crm_token_request cfg) = ''POST''
       \<and> req_url (crm_token_request cfg) = ''https://auth.servicetitan.io/connect/token''
       \<and> (\<forall>tok. fst (crm_get_access_token cfg reply) = Inr tok \<longrightarrow>
             (\<exists>r d. reply = Response r \<and> response_json r = Some d
                    \<and> subscript d ''access_token'' = Inr tok))
       \<and> (\<forall>r d tok. reply = Response r \<and> is_success r \<and> response_json r = Some d
                \<and> subscript d ''access_token'' = Inr tok \<longrightarrow>
             fst (crm_get_access_token cfg reply) = Inr tok)
       \<and> (\<forall>err. fst (crm_get_access_token cfg reply') = Inl err \<longrightarrow>
             create_booking_provider_tag cfg reply' api_reply tag_name description
               = (Inl err, [crm_token_request cfg]))"
proof -
  have miss: "\<And>w. \<not> (truthy (access_token st) \<and> float_lt (now_check w) (token_expires_at st))"
    using assms(2) by simp
  have one: "\<And>w. snd (snd (get_access_token cfg st w)) = [auth_request cfg]"
    by (simp add: get_access_token_miss[OF assms(1) miss])
  have ret: "\<forall>tok. fst (get_access_token cfg st w) = Inr tok \<longrightarrow>
             (\<exists>r d. auth_reply w = Response r \<and> status_code r = 200 \<and> response_json r = Some d
                    \<and> subscript d ''access_token'' = Inr tok)"
    using cold_start_returns_response_token[OF assms] by blast
  have fwd: "\<forall>r d tok ei s. auth_reply w = Response r \<and> status_code r = 200
                \<and> response_json r = Some d \<and> subscript d ''access_token'' = Inr tok
                \<and> subscript d ''expires_in'' = Inr ei
                \<and> float_add (Fin (now_store w)) ei = Inr s \<longrightarrow>
             fst (get_access_token cfg st w) = Inr tok"
    by (auto simp: get_access_token_miss[OF assms(1) miss] finish_fetch_def store_token_ok)
  have up: "\<forall>err. fst (get_access_token cfg st w') = Inl err \<longrightarrow>
             snd (snd (get_access_token cfg st w')) = [auth_request cfg]
             \<and> make_api_request cfg st w' api_reply method endpoint params data
                 = (Inl err, fst (snd (get_access_token cfg st w')), [auth_request cfg])"
    using one[of w']
      make_api_request_propagates[of cfg st w' _ api_reply "method" "endpoint" "params" "data"]
    by (metis prod.collapse)
  have crm1: "\<And>r. snd (crm_get_access_token cfg r) = [crm_token_request cfg]"
    by (rule crm_requests[OF assms(1)])
  have crmret: "\<forall>tok. fst (crm_get_access_token cfg reply) = Inr tok \<longrightarrow>
             (\<exists>r d. reply = Response r \<and> response_json r = Some d
                    \<and> subscript d ''access_token'' = Inr tok)"
    using crm_returns_response_token by blast
  have crmfwd: "\<forall>r d tok. reply = Response r \<and> is_success r \<and> response_json r = Some d
                \<and> subscript d ''access_token'' = Inr tok \<longrightarrow>
             fst (crm_get_access_token cfg reply) = Inr tok"
    using assms(1) by (auto simp: crm_get_access_token_def all_set_def raise_for_status_def)
  have crmup: "\<forall>err. fst (crm_get_access_token cfg reply') = Inl err \<longrightarrow>
             create_booking_provider_tag cfg reply' api_reply tag_name description
               = (Inl err, [crm_token_request cfg])"
    using create_booking_provider_tag_propagates[of cfg reply' _ api_reply tag_name description]
      crm1[of reply'] by simp
  have urls: "req_method (auth_request cfg) = ''POST''"
    "req_url (auth_request cfg) = ''https://auth.servicetitan.io/connect/token''"
    "req_method (crm_token_request cfg) = ''POST''"
    "req_url (crm_token_request cfg) = ''https://auth.servicetitan.io/connect/token''"
    by (simp_all add: auth_request_def crm_token_request_def AUTH_BASE_URL_def TOKEN_URL_def)
  from one[of w] ret fwd up crm1[of reply] crmret crmfwd crmup urls show ?thesis by blast
qed

theorem cold_start_sends_one_post_and_errors_propagate_witness:
  "get_access_token cfg_full initial_cache first_fetch
     = (Inr (JStr ''abc''), \<lparr>access_token = JStr ''abc'', token_expires_at = Fin 1060\<rparr>,
        [auth_request cfg_full])
   \<and> get_access_token cfg_full initial_cache (at_time 1000 refused_reply)
     = (Inl (PyException ''Failed to get access token: 401''), initial_cache,
        [auth_request cfg_full])
   \<and> make_api_request cfg_full initial_cache (at_time 1000 refused_reply) server_error_reply
        ''GET'' ''/invoices'' [] None
     = (Inl (PyException ''Failed to get access token: 401''), initial_cache,
        [auth_request cfg_full])
   \<and> crm_get_access_token cfg_full (token_reply (JStr ''abc'') (JInt 120))
     = (Inr (JStr ''abc''), [crm_token_request cfg_full])
   \<and> create_booking_provider_tag cfg_full refused_reply server_error_reply ''vip'' None
     = (Inl (HTTPStatusError 401), [crm_token_request cfg_full])"
proof -
  have c: "\<not> truthy (access_token initial_cache)" by (simp add: initial_cache_def)
  have g1: "get_access_token cfg_full initial_cache first_fetch
     = (Inr (JStr ''abc''), \<lparr>access_token = JStr ''abc'', token_expires_at = Fin 1060\<rparr>,
        [auth_request cfg_full])"
    by (simp add: get_access_token_miss all_set_cfg_full initial_cache_def first_fetch_def
          finish_fetch_120_at_1000)
  have g2: "get_access_token cfg_full initial_cache (at_time 1000 refused_reply)
     = (Inl (PyException ''Failed to get access token: 401''), initial_cache,
        [auth_request cfg_full])"
    by (simp add: get_access_token_miss all_set_cfg_full initial_cache_def at_time_def
          refused_reply_def finish_fetch_def str_int_401)
  from cold_start_sends_one_post_and_errors_propagate[OF all_set_cfg_full c,
         of first_fetch "at_time 1000 refused_reply" server_error_reply
            "''GET''" "''/invoices''" "[]" None
            "token_reply (JStr ''abc'') (JInt 120)" refused_reply "''vip''" None]
  show ?thesis
    by (simp add: g1 g2 crm_token_reply crm_refused_reply all_set_cfg_full)
qed

subsection \<open>C8: error statuses of the resource endpoints\<close>

text \<open>
  C8 as stated fails for \<open>export_service_agreements\<close>: the function returns
  \<open>response.json()\<close> without looking at the status. A 500 with a JSON body comes back as
  that body, not as an exception.
\<close>

theorem export_service_agreements_returns_body_on_500:
  "export_service_agreements sa_cfg
      (Response \<lparr>status_code = 500, response_text = [],
                 response_json = Some (JObj [(''title'', JStr ''Internal Server Error'')])\<rparr>)
      None None
     = (Inr (JObj [(''title'', JStr ''Internal Server Error'')]),
        [\<lparr>req_method = ''GET'',
          req_url = ''https://api.servicetitan.io/service-agreements/v2/tenant/42/export/service-agreements'',
          req_headers = [(''Authorization'', Bearer (JStr ''k'')), (''ST-App-Key'', Lit ''ak''),
                         (''Content-Type'', Lit ''application/json'')],
          req_params = [], req_form = [], req_body = None\<rparr>])"
  by (simp add: export_service_agreements_def sa_cfg_def HEADERS_def BASE_URL_def)

text \<open>
  C8, amended. It depends on the wrapper. \<open>create_booking_provider_tag\<close>, once it has its
  token, returns the dict \<open>{"error": "Not found", "status_code": 404}\<close> on a 404 and
  raises the status error of \<open>raise_for_status\<close> on every other status from 400 up.
  \<open>export_service_agreements\<close> never looks at the status: on any status it returns the
  parsed JSON body, and fails only when the body is not JSON.
\<close>

theorem wrapper_error_status_handling:
  assumes "fst (crm_get_access_token cfg token_rep) = Inr token"
    and "api_reply = Response r"
  shows "(status_code r = 404 \<longrightarrow>
            fst (create_booking_provider_tag cfg token_rep api_reply tag_name description)
              = Inr (JObj [(''error'', JStr ''Not found''), (''status_code'', JInt 404)]))
       \<and> (status_code r' \<ge> 400 \<and> status_code r' \<noteq> 404 \<longrightarrow>
            fst (create_booking_provider_tag cfg token_rep (Response r') tag_name description)
              = Inl (HTTPStatusError (status_code r')))
       \<and> fst (export_service_agreements c api_reply from_token include_recent_changes)
           = (case response_json r of None \<Rightarrow> Inl JSONDecodeError | Some j \<Rightarrow> Inr j)"
  using assms
  by (cases "crm_get_access_token cfg token_rep")
     (auto simp: create_booking_provider_tag_def export_service_agreements_def
                 raise_for_status_def is_success_def Let_def split: option.splits)

theorem wrapper_error_status_handling_witness:
  "fst (create_booking_provider_tag cfg_full (token_reply (JStr ''abc'') (JInt 120))
          (Response \<lparr>status_code = 404, response_text = [],
                     response_json = Some (JObj [(''title'', JStr ''Not Found'')])\<rparr>)
          ''vip'' None)
     = Inr (JObj [(''error'', JStr ''Not found''), (''status_code'', JInt 404)])
   \<and> fst (create_booking_provider_tag cfg_full (token_reply (JStr ''abc'') (JInt 120))
          (Response \<lparr>status_code = 500, response_text = [],
                     response_json = Some (JObj [(''title'', JStr ''Internal Server Error'')])\<rparr>)
          ''vip'' None)
     = Inl (HTTPStatusError 500)
   \<and> fst (export_service_agreements sa_cfg
          (Response \<lparr>status_code = 404, response_text = [],
                     response_json = Some (JObj [(''title'', JStr ''Not Found'')])\<rparr>)
          None None)
     = Inr (JObj [(''title'', JStr ''Not Found'')])"
proof -
  let ?r = "\<lparr>status_code = 404, response_text = [],
             response_json = Some (JObj [(''title'', JStr ''Not Found'')])\<rparr>"
  let ?r' = "\<lparr>status_code = 500, response_text = [],
              response_json = Some (JObj [(''title'', JStr ''Internal Server Error'')])\<rparr>"
  have t: "fst (crm_get_access_token cfg_full (token_reply (JStr ''abc'') (JInt 120)))
             = Inr (JStr ''abc'')"
    by (simp add: crm_token_reply all_set_cfg_full)
  from wrapper_error_status_handling[OF t refl, where r = "?r" and r' = "?r'" and c = sa_cfg
         and tag_name = "''vip''" and description = None and from_token = None
         and include_recent_changes = None]
  show ?thesis by simp
qed

subsection \<open>C9: servicetitan_crm.py keeps no token\<close>

text \<open>
  C9. In servicetitan_crm.py every call of \<open>get_access_token\<close> that returns a token has
  sent one POST to the token endpoint. The function reads and writes no module state, so
  after a successful call every further call sends its own POST again, whatever the
  replies are: a first call and \<open>n\<close> more make \<open>n + 1\<close> POSTs, two consecutive calls make
  two.
\<close>

theorem crm_token_fetched_on_every_call:
  assumes "fst (crm_get_access_token cfg r) = Inr tok"
  shows "snd (crm_get_access_token cfg r) = [crm_token_request cfg]
       \<and> req_method (crm_token_request cfg) = ''POST''
       \<and> req_url (crm_token_request cfg) = ''https://auth.servicetitan.io/connect/token''
       \<and> crm_calls cfg (r # rs) = replicate (Suc (length rs)) (crm_token_request cfg)
       \<and> crm_calls cfg [r, r'] = [crm_token_request cfg, crm_token_request cfg]"
proof -
  from assms have c: "all_set cfg" by (rule crm_success_configured)
  show ?thesis
    using crm_calls_replicate[OF c, of "r # rs"] crm_calls_replicate[OF c, of "[r, r']"]
      crm_requests[OF c, of r]
    by (simp add: crm_token_request_def TOKEN_URL_def)
qed

theorem crm_token_fetched_on_every_call_witness:
  "crm_get_access_token cfg_full (token_reply (JStr ''abc'') (JInt 3600))
     = (Inr (JStr ''abc''), [crm_token_request cfg_full])
   \<and> crm_calls cfg_full [token_reply (JStr ''abc'') (JInt 3600),
                          token_reply (JStr ''def'') (JInt 3600)]
     = [crm_token_request cfg_full, crm_token_request cfg_full]"
proof -
  have t: "fst (crm_get_access_token cfg_full (token_reply (JStr ''abc'') (JInt 3600)))
             = Inr (JStr ''abc'')"
    by (simp add: crm_token_reply all_set_cfg_full)
  from crm_token_fetched_on_every_call[OF t, of "[]" "token_reply (JStr ''def'') (JInt 3600)"]
  show ?thesis by (simp add: crm_token_reply all_set_cfg_full)
qed

subsection \<open>C10: two calls in flight\<close>

text \<open>
  C10. Take two calls \<open>a\<close> and \<open>b\<close> on the event loop that both find the cache absent or
  expired (the first piece of each ends in the POST) and whose round trips both succeed.
  Nothing makes the second wait for the first: both requests are sent. Each reply, when it
  arrives, replaces the globals with that call's own token and expiry; each call returns
  its own token; the globals at the end are those written by the reply that arrived last,
  in either order of arrival.
\<close>

theorem concurrent_misses_both_fetch_last_writer_wins:
  assumes "a \<noteq> b"
    and "check_cache cfg st na = None" and "check_cache cfg st nb = None"
    and "finish_fetch st ra sa = (Inr ta, ca)" and "finish_fetch st rb sb = (Inr tb, cb)"
  shows "sent (run_events cfg (start st) [Enter a na, Enter b nb])
           = [(a, auth_request cfg), (b, auth_request cfg)]
       \<and> cache (run_events cfg (start st) [Enter a na, Enter b nb, Answer a ra sa]) = ca
       \<and> cache (run_events cfg (start st)
                  [Enter a na, Enter b nb, Answer a ra sa, Answer b rb sb]) = cb
       \<and> cache (run_events cfg (start st) [Enter a na, Enter b nb, Answer b rb sb]) = cb
       \<and> cache (run_events cfg (start st)
                  [Enter a na, Enter b nb, Answer b rb sb, Answer a ra sa]) = ca
       \<and> tasks (run_events cfg (start st)
                  [Enter a na, Enter b nb, Answer a ra sa, Answer b rb sb]) a
           = Returned (Inr ta)
       \<and> tasks (run_events cfg (start st)
                  [Enter a na, Enter b nb, Answer a ra sa, Answer b rb sb]) b
           = Returned (Inr tb)
       \<and> access_token ca = ta \<and> access_token cb = tb"
proof -
  from finish_fetch_Inr[OF assms(4)] obtain r d where
    "store_token st sa d = (Inr ta, ca)" by blast
  from store_token_Inr[OF this] have ta: "access_token ca = ta" by auto
  from finish_fetch_Inr[OF assms(5)] obtain r' d' where
    "store_token st sb d' = (Inr tb, cb)" by blast
  from store_token_Inr[OF this] have tb: "access_token cb = tb" by auto
  show ?thesis
    using assms ta tb finish_fetch_overwrites[OF assms(4), of cb]
      finish_fetch_overwrites[OF assms(5), of ca]
    by (simp add: run_events_def start_def)
qed

theorem concurrent_misses_both_fetch_last_writer_wins_witness:
  "sent (run_events cfg_full (start initial_cache) [Enter 0 1000, Enter 1 1001])
     = [(0, auth_request cfg_full), (1, auth_request cfg_full)]
   \<and> cache (run_events cfg_full (start initial_cache)
        [Enter 0 1000, Enter 1 1001,
         Answer 0 (token_reply (JStr ''tok-a'') (JInt 3600)) 1002,
         Answer 1 (token_reply (JStr ''tok-b'') (JInt 3600)) 1003])
     = \<lparr>access_token = JStr ''tok-b'', token_expires_at = Fin 4543\<rparr>
   \<and> cache (run_events cfg_full (start initial_cache)
        [Enter 0 1000, Enter 1 1001,
         Answer 1 (token_reply (JStr ''tok-b'') (JInt 3600)) 1003,
         Answer 0 (token_reply (JStr ''tok-a'') (JInt 3600)) 1002])
     = \<lparr>access_token = JStr ''tok-a'', token_expires_at = Fin 4542\<rparr>"
proof -
  have ne: "(0::nat) \<noteq> 1" by simp
  have ma: "check_cache cfg_full initial_cache 1000 = None"
    by (simp add: check_cache_def all_set_cfg_full initial_cache_def)
  have mb: "check_cache cfg_full initial_cache 1001 = None"
    by (simp add: check_cache_def all_set_cfg_full initial_cache_def)
  have fa: "finish_fetch initial_cache (token_reply (JStr ''tok-a'') (JInt 3600)) 1002
              = (Inr (JStr ''tok-a''),
                 \<lparr>access_token = JStr ''tok-a'', token_expires_at = Fin 4542\<rparr>)"
    by (rule finish_fetch_3600_at_1002)
  have fb: "finish_fetch initial_cache (token_reply (JStr ''tok-b'') (JInt 3600)) 1003
              = (Inr (JStr ''tok-b''),
                 \<lparr>access_token = JStr ''tok-b'', token_expires_at = Fin 4543\<rparr>)"
    by (rule finish_fetch_3600_at_1003)
  from concurrent_misses_both_fetch_last_writer_wins[OF ne ma mb fa fb]
  show ?thesis by simp
qed

end
